theory Spec2Isabelle
  imports Complex_Main
begin

section \<open>Python values and exceptions\<close>

text \<open>
  The request bodies, the sensor store and the spray status hold whatever JSON the
  caller sent: nothing in \<^verbatim>\<open>app.py\<close> validates a type. A value is therefore one of
  Python's JSON values. Numbers (Python's \<^verbatim>\<open>int\<close> and finite \<^verbatim>\<open>float\<close>) are
  the real numbers they denote: the code only compares them, and Python compares
  numbers by their exact value. Strings are byte strings (ASCII).
\<close>

datatype pyval =
    PNone
  | PBool bool
  | PNum real
  | PStr string
  | PList "pyval list"
  | PDict "(string \<times> pyval) list"

datatype py_error = TypeError | AttributeError | KeyError | ValueError

text \<open>
  The operand of an ordering comparison with a number: a number, or a \<^verbatim>\<open>bool\<close>
  (a subclass of \<^verbatim>\<open>int\<close>: \<^verbatim>\<open>True\<close> is 1); comparing a number with anything else
  raises \<^verbatim>\<open>TypeError\<close>.
\<close>

fun num_of :: "pyval \<Rightarrow> py_error + real" where
  "num_of (PNum r) = Inr r"
| "num_of (PBool b) = Inr (if b then 1 else 0)"
| "num_of PNone = Inl TypeError"
| "num_of (PStr s) = Inl TypeError"
| "num_of (PList xs) = Inl TypeError"
| "num_of (PDict kvs) = Inl TypeError"

text \<open>
  The chained comparison \<^verbatim>\<open>lo <= v <= hi\<close> between two integer literals: it raises
  at the first comparison when \<open>v\<close> is not a number.
\<close>

definition py_between :: "real \<Rightarrow> pyval \<Rightarrow> real \<Rightarrow> py_error + bool" where
  "py_between lo v hi =
     (case num_of v of Inl e \<Rightarrow> Inl e | Inr r \<Rightarrow> Inr (lo \<le> r \<and> r \<le> hi))"

text \<open>
  \<^verbatim>\<open>d.get(key, default)\<close>: defined on a dict only (\<open>PDict\<close> lists the items of the
  dict, whose keys are distinct); any other receiver has no attribute \<^verbatim>\<open>get\<close>.
\<close>

fun py_get :: "pyval \<Rightarrow> string \<Rightarrow> pyval \<Rightarrow> py_error + pyval" where
  "py_get (PDict kvs) k d = Inr (case map_of kvs k of Some v \<Rightarrow> v | None \<Rightarrow> d)"
| "py_get PNone k d = Inl AttributeError"
| "py_get (PBool b) k d = Inl AttributeError"
| "py_get (PNum r) k d = Inl AttributeError"
| "py_get (PStr s) k d = Inl AttributeError"
| "py_get (PList xs) k d = Inl AttributeError"

text \<open>\<^verbatim>\<open>d.get(key, default)\<close> and \<^verbatim>\<open>d[key]\<close> on one of the module's global dicts.\<close>

definition store_get :: "(string \<rightharpoonup> pyval) \<Rightarrow> string \<Rightarrow> pyval \<Rightarrow> pyval" where
  "store_get m k d = (case m k of Some v \<Rightarrow> v | None \<Rightarrow> d)"

definition store_item :: "(string \<rightharpoonup> pyval) \<Rightarrow> string \<Rightarrow> py_error + pyval" where
  "store_item m k = (case m k of Some v \<Rightarrow> Inr v | None \<Rightarrow> Inl KeyError)"

text \<open>\<^verbatim>\<open>str.upper()\<close> on ASCII text; a value that is not a string has no such method.\<close>

definition upper_char :: "char \<Rightarrow> char" where
  "upper_char c =
     (case map_of (zip ''abcdefghijklmnopqrstuvwxyz'' ''ABCDEFGHIJKLMNOPQRSTUVWXYZ'') c of
        Some u \<Rightarrow> u
      | None \<Rightarrow> c)"

fun py_upper :: "pyval \<Rightarrow> py_error + string" where
  "py_upper (PStr s) = Inr (map upper_char s)"
| "py_upper PNone = Inl AttributeError"
| "py_upper (PBool b) = Inl AttributeError"
| "py_upper (PNum r) = Inl AttributeError"
| "py_upper (PList xs) = Inl AttributeError"
| "py_upper (PDict kvs) = Inl AttributeError"

section \<open>Spray duration (spray\_logic.py)\<close>

text \<open>
  \<^verbatim>\<open>calculate_spray_duration(infection_level)\<close>. The infection level is the float that
  \<^verbatim>\<open>calculate_infection_level\<close> returns, a percentage.
\<close>

definition calculate_spray_duration :: "real \<Rightarrow> int" where
  "calculate_spray_duration infection_level =
     (if infection_level \<le> 0 then 0
      else if infection_level < 25 then 3
      else if infection_level < 50 then 5
      else if infection_level < 75 then 8
      else 10)"

text \<open>
  \<^verbatim>\<open>calculate_spray_with_safety(infection_level, soil_moisture)\<close>. The reason is a
  formatted message; the model keeps which message it is and the values it prints.
\<close>

datatype spray_reason =
    OutsideSafeRange pyval
  | NoInfection
  | SprayingFor real int

record spray_decision =
  dec_spray_allowed :: bool
  dec_duration :: int
  dec_reason :: spray_reason

definition calculate_spray_with_safety :: "real \<Rightarrow> pyval \<Rightarrow> py_error + spray_decision" where
  "calculate_spray_with_safety infection_level soil_moisture =
     (case py_between 40 soil_moisture 70 of
        Inl e \<Rightarrow> Inl e
      | Inr moisture_safe \<Rightarrow>
          if \<not> moisture_safe then
            Inr \<lparr>dec_spray_allowed = False, dec_duration = 0, dec_reason = OutsideSafeRange soil_moisture\<rparr>
          else
            let d = calculate_spray_duration infection_level in
            if d = 0 then Inr \<lparr>dec_spray_allowed = False, dec_duration = 0, dec_reason = NoInfection\<rparr>
            else Inr \<lparr>dec_spray_allowed = True, dec_duration = d, dec_reason = SprayingFor infection_level d\<rparr>)"

section \<open>Severity, duration and recommendation (model.py)\<close>

text \<open>\<^verbatim>\<open>DiseaseSegmentationModel.DISEASE_DB\<close>, in the order of the source.\<close>

record disease_info =
  name :: string
  pesticide :: string
  dosage :: string
  description :: string

definition DISEASE_DB :: "(string \<times> disease_info) list" where
  "DISEASE_DB =
     [(''wheat_brown_rust'',
        \<lparr>name = ''Wheat Brown Rust'', pesticide = ''Propiconazole 25% EC'',
         dosage = ''1ml per liter of water'',
         description = ''Fungal disease causing brown pustules on leaves''\<rparr>),
      (''tomato_early_blight'',
        \<lparr>name = ''Tomato Early Blight'', pesticide = ''Mancozeb 75% WP'',
         dosage = ''2g per liter of water'',
         description = ''Alternaria solani causing concentric rings on leaves''\<rparr>),
      (''rice_blast'',
        \<lparr>name = ''Rice Blast'', pesticide = ''Tricyclazole 75% WP'',
         dosage = ''1g per liter of water'',
         description = ''Pyricularia oryzae causing diamond-shaped lesions''\<rparr>),
      (''potato_late_blight'',
        \<lparr>name = ''Potato Late Blight'', pesticide = ''Metalaxyl 8% + Mancozeb 64% WP'',
         dosage = ''2.5g per liter of water'',
         description = ''Phytophthora infestans causing dark lesions''\<rparr>),
      (''healthy'',
        \<lparr>name = ''Healthy Plant'', pesticide = ''None required'',
         dosage = ''N/A'',
         description = ''No disease detected''\<rparr>)]"

text \<open>\<^verbatim>\<open>_get_severity(infection_level)\<close>.\<close>

definition get_severity :: "real \<Rightarrow> string" where
  "get_severity infection_level =
     (if infection_level < 10 then ''Low''
      else if infection_level < 30 then ''Moderate''
      else if infection_level < 50 then ''High''
      else ''Severe'')"

text \<open>The method \<^verbatim>\<open>DiseaseSegmentationModel.calculate_spray_duration\<close>.\<close>

definition model_calculate_spray_duration :: "real \<Rightarrow> int" where
  "model_calculate_spray_duration infection_level =
     (if infection_level \<le> 0 then 0
      else if infection_level < 25 then 3
      else if infection_level < 50 then 5
      else if infection_level < 75 then 8
      else 10)"

text \<open>
  \<^verbatim>\<open>get_recommendation(disease_key, infection_level)\<close>. The default of the lookup,
  \<^verbatim>\<open>DISEASE_DB['healthy']\<close>, is evaluated before the lookup and raises
  \<^verbatim>\<open>KeyError\<close> when the table has no such entry.
\<close>

record recommendation =
  rec_disease_name :: string
  rec_description :: string
  rec_infection_level :: real
  rec_severity :: string
  rec_pesticide :: string
  rec_dosage :: string
  rec_spray_recommended :: bool
  rec_spray_duration :: int

definition get_recommendation :: "string \<Rightarrow> real \<Rightarrow> py_error + recommendation" where
  "get_recommendation disease_key infection_level =
     (case map_of DISEASE_DB ''healthy'' of
        None \<Rightarrow> Inl KeyError
      | Some healthy \<Rightarrow>
          let disease_info =
                (case map_of DISEASE_DB disease_key of Some i \<Rightarrow> i | None \<Rightarrow> healthy)
          in Inr \<lparr>rec_disease_name = name disease_info,
                  rec_description = description disease_info,
                  rec_infection_level = infection_level,
                  rec_severity = get_severity infection_level,
                  rec_pesticide = pesticide disease_info,
                  rec_dosage = dosage disease_info,
                  rec_spray_recommended = (infection_level > 15),
                  rec_spray_duration = model_calculate_spray_duration infection_level\<rparr>)"

section \<open>Global state (app.py)\<close>

text \<open>
  The two module-level dicts: \<^verbatim>\<open>latest_sensor_data\<close> and \<^verbatim>\<open>spray_status\<close>. Each
  handler takes the dicts it reads and returns the ones it writes. The time of the
  call, \<^verbatim>\<open>datetime.now().isoformat()\<close>, is the parameter \<open>now\<close>.
  A handler is one sequential step from the state before the request to the state
  after it; interleavings of concurrent requests are outside this model.
\<close>

definition initial_sensor_data :: "string \<Rightarrow> (string \<rightharpoonup> pyval)" where
  "initial_sensor_data now =
     [''temperature'' \<mapsto> PNum 25, ''humidity'' \<mapsto> PNum 60,
      ''soil_moisture'' \<mapsto> PNum 55, ''timestamp'' \<mapsto> PStr now]"

definition initial_spray_status :: "string \<rightharpoonup> pyval" where
  "initial_spray_status =
     [''is_spraying'' \<mapsto> PBool False, ''last_command'' \<mapsto> PNone,
      ''last_spray_time'' \<mapsto> PNone]"

section \<open>Sensor store (app.py)\<close>

datatype sensors_response =
    SensorsOk "string \<rightharpoonup> pyval"  \<comment> \<open>200, with the store as \<^verbatim>\<open>data\<close>\<close>
  | SensorsFailed py_error  \<comment> \<open>500, from the handler's \<^verbatim>\<open>except\<close>\<close>

definition get_sensors :: "(string \<rightharpoonup> pyval) \<Rightarrow> sensors_response" where
  "get_sensors latest_sensor_data = SensorsOk latest_sensor_data"

text \<open>
  One entry of the dict that \<^verbatim>\<open>update_sensors\<close> builds:
  \<^verbatim>\<open>data.get(k, latest_sensor_data[k])\<close>. Python looks up \<^verbatim>\<open>data.get\<close> first, then
  evaluates the default, then calls.
\<close>

definition sensor_field :: "pyval \<Rightarrow> (string \<rightharpoonup> pyval) \<Rightarrow> string \<Rightarrow> py_error + pyval" where
  "sensor_field data latest_sensor_data k =
     (case data of
        PDict kvs \<Rightarrow>
          (case store_item latest_sensor_data k of
             Inl e \<Rightarrow> Inl e
           | Inr old \<Rightarrow> py_get data k old)
      | _ \<Rightarrow> Inl AttributeError)"

text \<open>\<^verbatim>\<open>update_sensors()\<close>, with \<open>data\<close> the value of \<^verbatim>\<open>request.get_json()\<close>.\<close>

definition update_sensors ::
  "string \<Rightarrow> (string \<rightharpoonup> pyval) \<Rightarrow> pyval \<Rightarrow> sensors_response \<times> (string \<rightharpoonup> pyval)" where
  "update_sensors now latest_sensor_data data =
     (case sensor_field data latest_sensor_data ''temperature'' of
        Inl e \<Rightarrow> (SensorsFailed e, latest_sensor_data)
      | Inr t \<Rightarrow>
     (case sensor_field data latest_sensor_data ''humidity'' of
        Inl e \<Rightarrow> (SensorsFailed e, latest_sensor_data)
      | Inr h \<Rightarrow>
     (case sensor_field data latest_sensor_data ''soil_moisture'' of
        Inl e \<Rightarrow> (SensorsFailed e, latest_sensor_data)
      | Inr m \<Rightarrow>
          let updated = latest_sensor_data
                (''temperature'' \<mapsto> t, ''humidity'' \<mapsto> h, ''soil_moisture'' \<mapsto> m,
                 ''timestamp'' \<mapsto> PStr now)
          in (SensorsOk updated, updated))))"

section \<open>Spray control (app.py)\<close>

datatype spray_response =
    SprayFailed py_error  \<comment> \<open>500, from the handler's \<^verbatim>\<open>except\<close>\<close>
  | InvalidCommand  \<comment> \<open>400\<close>
  | SprayRejected pyval  \<comment> \<open>403, command \<^verbatim>\<open>REJECTED\<close>, with the soil moisture\<close>
  | SprayStarted pyval pyval  \<comment> \<open>200, \<^verbatim>\<open>START_SPRAY\<close>, with duration and soil moisture\<close>
  | SprayStopped  \<comment> \<open>200, \<^verbatim>\<open>STOP_SPRAY\<close>\<close>

text \<open>\<^verbatim>\<open>data.get('command', '').upper()\<close>\<close>

definition request_command :: "pyval \<Rightarrow> py_error + string" where
  "request_command data =
     (case py_get data ''command'' (PStr []) of Inl e \<Rightarrow> Inl e | Inr c \<Rightarrow> py_upper c)"

text \<open>\<^verbatim>\<open>data.get('duration', 5)\<close>\<close>

definition request_duration :: "pyval \<Rightarrow> py_error + pyval" where
  "request_duration data = py_get data ''duration'' (PNum 5)"

text \<open>\<^verbatim>\<open>data.get('soil_moisture', latest_sensor_data.get('soil_moisture', 50))\<close>\<close>

definition request_soil_moisture :: "(string \<rightharpoonup> pyval) \<Rightarrow> pyval \<Rightarrow> py_error + pyval" where
  "request_soil_moisture latest_sensor_data data =
     py_get data ''soil_moisture'' (store_get latest_sensor_data ''soil_moisture'' (PNum 50))"

text \<open>
  \<^verbatim>\<open>control_spray()\<close>, with \<open>data\<close> the value of \<^verbatim>\<open>request.get_json()\<close>. The moisture
  comparison stands before the dispatch on the command, so it is evaluated (and can
  raise) for \<^verbatim>\<open>STOP\<close> too.
\<close>

definition control_spray ::
  "string \<Rightarrow> (string \<rightharpoonup> pyval) \<Rightarrow> (string \<rightharpoonup> pyval) \<Rightarrow> pyval
     \<Rightarrow> spray_response \<times> (string \<rightharpoonup> pyval)" where
  "control_spray now latest_sensor_data spray_status data =
     (case request_command data of
        Inl e \<Rightarrow> (SprayFailed e, spray_status)
      | Inr command \<Rightarrow>
     (case request_duration data of
        Inl e \<Rightarrow> (SprayFailed e, spray_status)
      | Inr duration \<Rightarrow>
     (case request_soil_moisture latest_sensor_data data of
        Inl e \<Rightarrow> (SprayFailed e, spray_status)
      | Inr soil_moisture \<Rightarrow>
          if command \<notin> set [''START'', ''STOP''] then (InvalidCommand, spray_status)
          else
            (case py_between 40 soil_moisture 70 of
               Inl e \<Rightarrow> (SprayFailed e, spray_status)
             | Inr moisture_safe \<Rightarrow>
                 if command = ''START'' then
                   if \<not> moisture_safe then
                     (SprayRejected soil_moisture,
                      spray_status(''last_command'' \<mapsto> PStr ''REJECTED''))
                   else
                     (SprayStarted duration soil_moisture,
                      spray_status
                        (''is_spraying'' \<mapsto> PBool True, ''last_command'' \<mapsto> PStr ''START'',
                         ''last_spray_time'' \<mapsto> PStr now, ''spray_duration'' \<mapsto> duration))
                 else
                   (SprayStopped,
                    spray_status
                      (''is_spraying'' \<mapsto> PBool False, ''last_command'' \<mapsto> PStr ''STOP''))))))"

definition get_spray_status :: "(string \<rightharpoonup> pyval) \<Rightarrow> (string \<rightharpoonup> pyval)" where
  "get_spray_status spray_status = spray_status"

section \<open>Image analysis response (app.py)\<close>

text \<open>
  \<^verbatim>\<open>analyze_image()\<close> from the point where the image has been read. The form is
  \<^verbatim>\<open>request.form\<close>; Python's \<^verbatim>\<open>float\<close> on a form string is the parameter
  \<open>py_float\<close> (it raises \<^verbatim>\<open>ValueError\<close> on text that is no number); the disease
  key and the infection level are what the segmentation model returned. The alert is
  a formatted message: the model keeps which of the three messages it is. The
  fields \<^verbatim>\<open>success\<close>, \<^verbatim>\<open>timestamp\<close>, \<^verbatim>\<open>confidence\<close> and \<^verbatim>\<open>image_path\<close> of the
  response depend on none of the values here and are left out.
\<close>

text \<open>
  The infection level that \<^verbatim>\<open>analyze_image\<close> passes on is the \<^verbatim>\<open>numpy.float64\<close> that
  \<^verbatim>\<open>calculate_infection_level\<close> returns (\<^verbatim>\<open>round\<close> of a \<^verbatim>\<open>numpy.float64\<close>), so
  \<^verbatim>\<open>infection_level > 15\<close> in \<^verbatim>\<open>get_recommendation\<close> is a \<^verbatim>\<open>numpy.bool_\<close> there, with
  the truth value \<open>rec_spray_recommended\<close>. Python's \<^verbatim>\<open>a and b\<close> is \<open>a\<close> when
  \<open>a\<close> is falsy and \<open>b\<close> otherwise. \<^verbatim>\<open>jsonify\<close> serialises a Python \<^verbatim>\<open>bool\<close> and
  raises \<^verbatim>\<open>TypeError\<close> on a \<^verbatim>\<open>numpy.bool_\<close>; the call stands inside the handler's
  \<^verbatim>\<open>try\<close>. Every other value of the response is a Python \<^verbatim>\<open>str\<close>, \<^verbatim>\<open>int\<close>,
  \<^verbatim>\<open>bool\<close> or \<^verbatim>\<open>float\<close> (\<^verbatim>\<open>numpy.float64\<close> is a subclass of \<^verbatim>\<open>float\<close>) or a
  value that came from JSON, and serialises.
\<close>

datatype py_flag = PyBool bool | NumpyBool bool

fun flag_truth :: "py_flag \<Rightarrow> bool" where
  "flag_truth (PyBool b) = b"
| "flag_truth (NumpyBool b) = b"

definition py_and :: "py_flag \<Rightarrow> py_flag \<Rightarrow> py_flag" where
  "py_and a b = (if flag_truth a then b else a)"

fun jsonify_flag :: "py_flag \<Rightarrow> py_error + bool" where
  "jsonify_flag (PyBool b) = Inr b"
| "jsonify_flag (NumpyBool b) = Inl TypeError"

datatype alert_message = DiseaseAlertWarning | DiseaseAlertSpray | PlantHealthy

record analysis =
  resp_disease_detected :: bool
  resp_disease_name :: string
  resp_disease_description :: string
  resp_infection_level :: real
  resp_severity :: string
  resp_pesticide :: string
  resp_dosage :: string
  resp_spray_recommended :: bool
  resp_spray_duration :: int
  resp_spray_allowed :: bool
  resp_soil_moisture :: pyval
  resp_moisture_safe :: bool
  resp_alert_message :: alert_message

datatype analyze_response =
    AnalyzeOk analysis  \<comment> \<open>200\<close>
  | AnalyzeFailed py_error  \<comment> \<open>500, from the handler's \<^verbatim>\<open>except\<close>\<close>

definition analyze_soil_moisture ::
  "(string \<Rightarrow> py_error + real) \<Rightarrow> (string \<rightharpoonup> string) \<Rightarrow> (string \<rightharpoonup> pyval) \<Rightarrow> py_error + pyval" where
  "analyze_soil_moisture py_float form latest_sensor_data =
     (case form ''soil_moisture'' of
        Some s \<Rightarrow> (case py_float s of Inl e \<Rightarrow> Inl e | Inr r \<Rightarrow> Inr (PNum r))
      | None \<Rightarrow> Inr (store_get latest_sensor_data ''soil_moisture'' (PNum 50)))"

definition analyze_image ::
  "(string \<Rightarrow> py_error + real) \<Rightarrow> (string \<rightharpoonup> string) \<Rightarrow> (string \<rightharpoonup> pyval)
     \<Rightarrow> string \<Rightarrow> real \<Rightarrow> analyze_response" where
  "analyze_image py_float form latest_sensor_data disease_key infection_level =
     (case analyze_soil_moisture py_float form latest_sensor_data of
        Inl e \<Rightarrow> AnalyzeFailed e
      | Inr soil_moisture \<Rightarrow>
     (case get_recommendation disease_key infection_level of
        Inl e \<Rightarrow> AnalyzeFailed e
      | Inr recommendation \<Rightarrow>
     (case py_between 40 soil_moisture 70 of
        Inl e \<Rightarrow> AnalyzeFailed e
      | Inr moisture_safe \<Rightarrow>
     (case jsonify_flag
             (py_and (NumpyBool (rec_spray_recommended recommendation)) (PyBool moisture_safe)) of
        Inl e \<Rightarrow> AnalyzeFailed e
      | Inr spray_recommended \<Rightarrow>
          AnalyzeOk
            \<lparr>resp_disease_detected = (disease_key \<noteq> ''healthy''),
             resp_disease_name = rec_disease_name recommendation,
             resp_disease_description = rec_description recommendation,
             resp_infection_level = infection_level,
             resp_severity = rec_severity recommendation,
             resp_pesticide = rec_pesticide recommendation,
             resp_dosage = rec_dosage recommendation,
             resp_spray_recommended = spray_recommended,
             resp_spray_duration = rec_spray_duration recommendation,
             resp_spray_allowed = moisture_safe,
             resp_soil_moisture = soil_moisture,
             resp_moisture_safe = moisture_safe,
             resp_alert_message =
               (if infection_level > 15 then
                  if \<not> moisture_safe then DiseaseAlertWarning else DiseaseAlertSpray
                else PlantHealthy)\<rparr>))))"

section \<open>Properties of the classifier\<close>

text \<open>
  C4: the spray duration follows the bands \<open>x \<le> 0 \<mapsto> 0\<close>, \<open>0 < x < 25 \<mapsto> 3\<close>,
  \<open>25 \<le> x < 50 \<mapsto> 5\<close>, \<open>50 \<le> x < 75 \<mapsto> 8\<close>, \<open>x \<ge> 75 \<mapsto> 10\<close>, in
  \<^verbatim>\<open>spray_logic.calculate_spray_duration\<close> and in the model's method of the same name;
  the boundaries 25, 50 and 75 belong to the upper band and the result is one of
  0, 3, 5, 8, 10.
\<close>

theorem spray_duration_bands:
  "(x \<le> 0 \<longrightarrow> calculate_spray_duration x = 0 \<and> model_calculate_spray_duration x = 0) \<and>
   (0 < x \<and> x < 25 \<longrightarrow> calculate_spray_duration x = 3 \<and> model_calculate_spray_duration x = 3) \<and>
   (25 \<le> x \<and> x < 50 \<longrightarrow> calculate_spray_duration x = 5 \<and> model_calculate_spray_duration x = 5) \<and>
   (50 \<le> x \<and> x < 75 \<longrightarrow> calculate_spray_duration x = 8 \<and> model_calculate_spray_duration x = 8) \<and>
   (75 \<le> x \<longrightarrow> calculate_spray_duration x = 10 \<and> model_calculate_spray_duration x = 10) \<and>
   calculate_spray_duration x \<in> {0, 3, 5, 8, 10} \<and>
   model_calculate_spray_duration x \<in> {0, 3, 5, 8, 10}"
  by (simp add: calculate_spray_duration_def model_calculate_spray_duration_def)

theorem spray_duration_bands_witness:
  "(0::real) \<le> 0 \<and> calculate_spray_duration 0 = 0 \<and> model_calculate_spray_duration 0 = 0 \<and>
   (0::real) < 10 \<and> (10::real) < 25 \<and>
     calculate_spray_duration 10 = 3 \<and> model_calculate_spray_duration 10 = 3 \<and>
   (25::real) \<le> 25 \<and> (25::real) < 50 \<and>
     calculate_spray_duration 25 = 5 \<and> model_calculate_spray_duration 25 = 5 \<and>
   (50::real) \<le> 50 \<and> (50::real) < 75 \<and>
     calculate_spray_duration 50 = 8 \<and> model_calculate_spray_duration 50 = 8 \<and>
   (75::real) \<le> 75 \<and> calculate_spray_duration 75 = 10 \<and> model_calculate_spray_duration 75 = 10"
  using spray_duration_bands [of 0] spray_duration_bands [of 10] spray_duration_bands [of 25]
    spray_duration_bands [of 50] spray_duration_bands [of 75]
  by simp

text \<open>
  C7: the severity label follows the bands \<open>x < 10 \<mapsto> Low\<close>,
  \<open>10 \<le> x < 30 \<mapsto> Moderate\<close>, \<open>30 \<le> x < 50 \<mapsto> High\<close>, \<open>x \<ge> 50 \<mapsto> Severe\<close>.
\<close>

theorem severity_bands:
  "(x < 10 \<longrightarrow> get_severity x = ''Low'') \<and>
   (10 \<le> x \<and> x < 30 \<longrightarrow> get_severity x = ''Moderate'') \<and>
   (30 \<le> x \<and> x < 50 \<longrightarrow> get_severity x = ''High'') \<and>
   (50 \<le> x \<longrightarrow> get_severity x = ''Severe'')"
  by (simp add: get_severity_def)

theorem severity_bands_witness:
  "(9.99::real) < 10 \<and> get_severity 9.99 = ''Low'' \<and>
   (10::real) \<le> 10 \<and> (10::real) < 30 \<and> get_severity 10 = ''Moderate'' \<and>
   (30::real) \<le> 30 \<and> (30::real) < 50 \<and> get_severity 30 = ''High'' \<and>
   (50::real) \<le> 50 \<and> get_severity 50 = ''Severe''"
  using severity_bands [of "9.99"] severity_bands [of 10] severity_bands [of 30]
    severity_bands [of 50]
  by simp

text \<open>The table has its \<^verbatim>\<open>healthy\<close> entry, so the default of the lookup never raises.\<close>

lemma healthy_entry:
  "map_of DISEASE_DB ''healthy'' =
     Some \<lparr>name = ''Healthy Plant'', pesticide = ''None required'', dosage = ''N/A'',
           description = ''No disease detected''\<rparr>"
  by (simp add: DISEASE_DB_def)

text \<open>
  C6: for every disease key and infection level, \<^verbatim>\<open>get_recommendation\<close> returns a
  record whose \<^verbatim>\<open>spray_recommended\<close> is true exactly when the infection level is
  above 15, whatever the duration band: at 20 the duration is 3 and spraying is
  recommended.
\<close>

theorem spray_recommended_iff:
  "(\<exists>r. get_recommendation k x = Inr r \<and> rec_spray_recommended r = (15 < x)) \<and>
   (\<exists>r. get_recommendation k 20 = Inr r \<and> rec_spray_recommended r \<and> rec_spray_duration r = 3)"
  by (simp add: get_recommendation_def healthy_entry Let_def model_calculate_spray_duration_def)

text \<open>
  C9: for a disease key that is not in \<^verbatim>\<open>DISEASE_DB\<close>, \<^verbatim>\<open>get_recommendation\<close> raises
  nothing and returns the name, pesticide, dosage and description of the
  \<^verbatim>\<open>healthy\<close> entry: the same record as for the key \<^verbatim>\<open>healthy\<close> itself.
\<close>

theorem unknown_disease_is_healthy:
  "map_of DISEASE_DB k = None \<Longrightarrow>
     get_recommendation k x = get_recommendation ''healthy'' x \<and>
     (\<exists>r. get_recommendation k x = Inr r \<and>
        rec_disease_name r = ''Healthy Plant'' \<and> rec_pesticide r = ''None required'' \<and>
        rec_dosage r = ''N/A'' \<and> rec_description r = ''No disease detected'')"
  by (simp add: get_recommendation_def healthy_entry Let_def)

theorem unknown_disease_is_healthy_witness:
  "map_of DISEASE_DB ''apple_scab'' = None \<and>
   get_recommendation ''apple_scab'' 42 = get_recommendation ''healthy'' 42 \<and>
   (\<exists>r. get_recommendation ''apple_scab'' 42 = Inr r \<and>
      rec_disease_name r = ''Healthy Plant'' \<and> rec_pesticide r = ''None required'' \<and>
      rec_dosage r = ''N/A'' \<and> rec_description r = ''No disease detected'')"
proof -
  have u: "map_of DISEASE_DB ''apple_scab'' = None"
    by (simp add: DISEASE_DB_def)
  show ?thesis
    using unknown_disease_is_healthy [OF u, of 42] u by blast
qed

section \<open>Properties of the safety interlock and the spray controller\<close>

text \<open>A request whose command could be read is a JSON object.\<close>

lemma request_command_dict:
  "request_command data = Inr c \<Longrightarrow> \<exists>kvs. data = PDict kvs"
  by (cases data) (simp_all add: request_command_def)

text \<open>
  C1: the interlock permits actuation exactly when \<open>40 \<le> m \<le> 70\<close>, both bounds
  included. For a \<^verbatim>\<open>START\<close> request whose soil moisture resolves to the number \<open>m\<close>,
  \<^verbatim>\<open>control_spray\<close> starts the pump exactly when \<open>m\<close> is in the range and rejects the
  command exactly when it is not; \<^verbatim>\<open>calculate_spray_with_safety\<close>, for an infected
  leaf, allows spraying exactly when \<open>m\<close> is in the range.
\<close>

theorem moisture_interlock:
  assumes "request_command data = Inr ''START''"
    and "request_soil_moisture sensors data = Inr v"
    and "num_of v = Inr m"
    and "0 < x"
  shows "((\<exists>d. fst (control_spray now sensors status data) = SprayStarted d v) = (40 \<le> m \<and> m \<le> 70)) \<and>
         ((fst (control_spray now sensors status data) = SprayRejected v) = (\<not> (40 \<le> m \<and> m \<le> 70))) \<and>
         (\<exists>d. calculate_spray_with_safety x v = Inr d \<and> dec_spray_allowed d = (40 \<le> m \<and> m \<le> 70))"
proof -
  from assms(1) obtain kvs where d: "data = PDict kvs"
    using request_command_dict by blast
  have ctl: "fst (control_spray now sensors status data) =
      (if 40 \<le> m \<and> m \<le> 70
       then SprayStarted (case map_of kvs ''duration'' of Some u \<Rightarrow> u | None \<Rightarrow> PNum 5) v
       else SprayRejected v)"
    using assms(1-3) by (simp add: control_spray_def d request_duration_def py_between_def)
  have saf: "\<exists>d. calculate_spray_with_safety x v = Inr d \<and> dec_spray_allowed d = (40 \<le> m \<and> m \<le> 70)"
    using assms(3,4)
    by (simp add: calculate_spray_with_safety_def py_between_def calculate_spray_duration_def Let_def)
  show ?thesis using ctl saf by simp
qed

text \<open>The values 39.9, 40, 70 and 70.1: rejected, accepted, accepted, rejected.\<close>

theorem moisture_interlock_witness:
  "request_command (PDict [(''command'', PStr ''START''), (''soil_moisture'', PNum 39.9)]) = Inr ''START'' \<and>
   request_soil_moisture (initial_sensor_data ''t0'')
     (PDict [(''command'', PStr ''START''), (''soil_moisture'', PNum 39.9)]) = Inr (PNum 39.9) \<and>
   num_of (PNum 39.9) = Inr 39.9 \<and> (0::real) < 30 \<and>
   fst (control_spray ''t1'' (initial_sensor_data ''t0'') initial_spray_status
     (PDict [(''command'', PStr ''START''), (''soil_moisture'', PNum 39.9)])) = SprayRejected (PNum 39.9) \<and>
   (\<exists>d. calculate_spray_with_safety 30 (PNum 39.9) = Inr d \<and> \<not> dec_spray_allowed d) \<and>
   (\<exists>d. fst (control_spray ''t1'' (initial_sensor_data ''t0'') initial_spray_status
     (PDict [(''command'', PStr ''START''), (''soil_moisture'', PNum 40)])) = SprayStarted d (PNum 40)) \<and>
   (\<exists>d. calculate_spray_with_safety 30 (PNum 40) = Inr d \<and> dec_spray_allowed d) \<and>
   (\<exists>d. fst (control_spray ''t1'' (initial_sensor_data ''t0'') initial_spray_status
     (PDict [(''command'', PStr ''START''), (''soil_moisture'', PNum 70)])) = SprayStarted d (PNum 70)) \<and>
   (\<exists>d. calculate_spray_with_safety 30 (PNum 70) = Inr d \<and> dec_spray_allowed d) \<and>
   fst (control_spray ''t1'' (initial_sensor_data ''t0'') initial_spray_status
     (PDict [(''command'', PStr ''START''), (''soil_moisture'', PNum 70.1)])) = SprayRejected (PNum 70.1) \<and>
   (\<exists>d. calculate_spray_with_safety 30 (PNum 70.1) = Inr d \<and> \<not> dec_spray_allowed d)"
proof -
  have c: "\<And>m. request_command (PDict [(''command'', PStr ''START''), (''soil_moisture'', PNum m)]) = Inr ''START''"
    by (simp add: request_command_def upper_char_def)
  have s: "\<And>m. request_soil_moisture (initial_sensor_data ''t0'')
     (PDict [(''command'', PStr ''START''), (''soil_moisture'', PNum m)]) = Inr (PNum m)"
    by (simp add: request_soil_moisture_def)
  have n: "\<And>m. num_of (PNum m) = Inr m" by simp
  have p: "(0::real) < 30" by simp
  show ?thesis
    using moisture_interlock [OF c [of "39.9"] s [of "39.9"] n [of "39.9"] p,
        where now = "''t1''" and status = initial_spray_status]
      moisture_interlock [OF c [of 40] s [of 40] n [of 40] p,
        where now = "''t1''" and status = initial_spray_status]
      moisture_interlock [OF c [of 70] s [of 70] n [of 70] p,
        where now = "''t1''" and status = initial_spray_status]
      moisture_interlock [OF c [of "70.1"] s [of "70.1"] n [of "70.1"] p,
        where now = "''t1''" and status = initial_spray_status]
      c s
    by simp
qed

text \<open>
  C2: a \<^verbatim>\<open>START\<close> request whose soil moisture resolves to a number outside
  \<open>[40, 70]\<close> is rejected; the spray status keeps \<^verbatim>\<open>is_spraying\<close> as it was, gets
  \<^verbatim>\<open>last_command = 'REJECTED'\<close>, and changes in no other key.
\<close>

theorem rejected_start_frame:
  assumes "request_command data = Inr ''START''"
    and "request_soil_moisture sensors data = Inr v"
    and "num_of v = Inr m"
    and "m < 40 \<or> 70 < m"
  shows "control_spray now sensors status data =
           (SprayRejected v, status(''last_command'' \<mapsto> PStr ''REJECTED'')) \<and>
         snd (control_spray now sensors status data) ''is_spraying'' = status ''is_spraying'' \<and>
         snd (control_spray now sensors status data) ''last_command'' = Some (PStr ''REJECTED'') \<and>
         (\<forall>k. k \<noteq> ''last_command'' \<longrightarrow> snd (control_spray now sensors status data) k = status k)"
proof -
  from assms(1) obtain kvs where d: "data = PDict kvs"
    using request_command_dict by blast
  have "control_spray now sensors status data =
           (SprayRejected v, status(''last_command'' \<mapsto> PStr ''REJECTED''))"
    using assms by (auto simp add: control_spray_def d request_duration_def py_between_def)
  then show ?thesis by simp
qed

text \<open>A pump that is spraying keeps spraying when a \<^verbatim>\<open>start\<close> arrives at moisture 80.\<close>

theorem rejected_start_frame_witness:
  "request_command (PDict [(''command'', PStr ''start''), (''duration'', PNum 8)]) = Inr ''START'' \<and>
   request_soil_moisture [''soil_moisture'' \<mapsto> PNum 80]
     (PDict [(''command'', PStr ''start''), (''duration'', PNum 8)]) = Inr (PNum 80) \<and>
   num_of (PNum 80) = Inr 80 \<and> ((80::real) < 40 \<or> (70::real) < 80) \<and>
   control_spray ''t1'' [''soil_moisture'' \<mapsto> PNum 80]
       [''is_spraying'' \<mapsto> PBool True, ''last_command'' \<mapsto> PStr ''START'',
        ''last_spray_time'' \<mapsto> PStr ''t0'', ''spray_duration'' \<mapsto> PNum 5]
       (PDict [(''command'', PStr ''start''), (''duration'', PNum 8)]) =
     (SprayRejected (PNum 80),
      [''is_spraying'' \<mapsto> PBool True, ''last_command'' \<mapsto> PStr ''START'',
       ''last_spray_time'' \<mapsto> PStr ''t0'', ''spray_duration'' \<mapsto> PNum 5]
      (''last_command'' \<mapsto> PStr ''REJECTED'')) \<and>
   snd (control_spray ''t1'' [''soil_moisture'' \<mapsto> PNum 80]
       [''is_spraying'' \<mapsto> PBool True, ''last_command'' \<mapsto> PStr ''START'',
        ''last_spray_time'' \<mapsto> PStr ''t0'', ''spray_duration'' \<mapsto> PNum 5]
       (PDict [(''command'', PStr ''start''), (''duration'', PNum 8)])) ''is_spraying'' = Some (PBool True)"
proof -
  have c: "request_command (PDict [(''command'', PStr ''start''), (''duration'', PNum 8)]) = Inr ''START''"
    by (simp add: request_command_def upper_char_def)
  have s: "request_soil_moisture [''soil_moisture'' \<mapsto> PNum 80]
     (PDict [(''command'', PStr ''start''), (''duration'', PNum 8)]) = Inr (PNum 80)"
    by (simp add: request_soil_moisture_def store_get_def)
  have n: "num_of (PNum 80) = Inr 80" by simp
  have u: "(80::real) < 40 \<or> (70::real) < 80" by simp
  show ?thesis
    using rejected_start_frame [OF c s n u, where now = "''t1''" and status =
        "[''is_spraying'' \<mapsto> PBool True, ''last_command'' \<mapsto> PStr ''START'',
          ''last_spray_time'' \<mapsto> PStr ''t0'', ''spray_duration'' \<mapsto> PNum 5]"] c s
    by simp
qed

text \<open>
  When the soil moisture resolves to a number, in the safe range or not, a
  \<^verbatim>\<open>STOP\<close> request succeeds from every spray status; afterwards \<^verbatim>\<open>is_spraying\<close> is
  false and \<^verbatim>\<open>last_command\<close> is \<^verbatim>\<open>'STOP'\<close>.
\<close>

lemma stop_succeeds_on_numeric_moisture:
  assumes "request_command data = Inr ''STOP''"
    and "request_soil_moisture sensors data = Inr v"
    and "num_of v = Inr m"
  shows "control_spray now sensors status data =
           (SprayStopped, status(''is_spraying'' \<mapsto> PBool False, ''last_command'' \<mapsto> PStr ''STOP'')) \<and>
         snd (control_spray now sensors status data) ''is_spraying'' = Some (PBool False) \<and>
         snd (control_spray now sensors status data) ''last_command'' = Some (PStr ''STOP'')"
proof -
  from assms(1) obtain kvs where d: "data = PDict kvs"
    using request_command_dict by blast
  have "control_spray now sensors status data =
           (SprayStopped, status(''is_spraying'' \<mapsto> PBool False, ''last_command'' \<mapsto> PStr ''STOP''))"
    using assms by (simp add: control_spray_def d request_duration_def py_between_def)
  then show ?thesis by simp
qed

text \<open>A spraying pump is stopped at moisture 85, outside the safe range.\<close>

lemma stop_succeeds_at_moisture_85:
  "request_command (PDict [(''command'', PStr ''stop'')]) = Inr ''STOP'' \<and>
   request_soil_moisture [''soil_moisture'' \<mapsto> PNum 85] (PDict [(''command'', PStr ''stop'')])
     = Inr (PNum 85) \<and>
   num_of (PNum 85) = Inr 85 \<and>
   control_spray ''t1'' [''soil_moisture'' \<mapsto> PNum 85]
       [''is_spraying'' \<mapsto> PBool True, ''last_command'' \<mapsto> PStr ''START'']
       (PDict [(''command'', PStr ''stop'')]) =
     (SprayStopped,
      [''is_spraying'' \<mapsto> PBool True, ''last_command'' \<mapsto> PStr ''START'']
      (''is_spraying'' \<mapsto> PBool False, ''last_command'' \<mapsto> PStr ''STOP'')) \<and>
   snd (control_spray ''t1'' [''soil_moisture'' \<mapsto> PNum 85]
       [''is_spraying'' \<mapsto> PBool True, ''last_command'' \<mapsto> PStr ''START'']
       (PDict [(''command'', PStr ''stop'')])) ''is_spraying'' = Some (PBool False)"
proof -
  have c: "request_command (PDict [(''command'', PStr ''stop'')]) = Inr ''STOP''"
    by (simp add: request_command_def upper_char_def)
  have s: "request_soil_moisture [''soil_moisture'' \<mapsto> PNum 85] (PDict [(''command'', PStr ''stop'')])
     = Inr (PNum 85)"
    by (simp add: request_soil_moisture_def store_get_def)
  have n: "num_of (PNum 85) = Inr 85" by simp
  show ?thesis
    using stop_succeeds_on_numeric_moisture [OF c s n, where now = "''t1''" and status =
        "[''is_spraying'' \<mapsto> PBool True, ''last_command'' \<mapsto> PStr ''START'']"] c s
    by simp
qed

text \<open>
  The comparison is evaluated before the dispatch, so a soil moisture that is not a
  number makes the handler fail for \<^verbatim>\<open>STOP\<close> as for \<^verbatim>\<open>START\<close>, with the status
  unchanged.
\<close>

lemma stop_with_text_moisture_fails:
  "control_spray now sensors status
     (PDict [(''command'', PStr ''STOP''), (''soil_moisture'', PStr ''wet'')]) =
   (SprayFailed TypeError, status)"
  by (simp add: control_spray_def request_command_def request_duration_def
      request_soil_moisture_def py_between_def upper_char_def)

text \<open>
  C3: a \<^verbatim>\<open>STOP\<close> request is to succeed from every spray status and whatever the
  moisture, leaving the pump idle with \<^verbatim>\<open>last_command = 'STOP'\<close>. The store accepts
  any reading, and the comparison stands before the dispatch: once the pump has been
  started and a sensor push \<^verbatim>\<open>{"soil_moisture": null}\<close> has been accepted, the request
  \<^verbatim>\<open>{"command": "STOP"}\<close> fails with \<^verbatim>\<open>TypeError\<close> and the pump keeps spraying.
\<close>

theorem stop_blocked_by_null_moisture:
  "control_spray ''t1'' (initial_sensor_data ''t0'') initial_spray_status
       (PDict [(''command'', PStr ''START'')]) =
     (SprayStarted (PNum 5) (PNum 55),
      initial_spray_status
        (''is_spraying'' \<mapsto> PBool True, ''last_command'' \<mapsto> PStr ''START'',
         ''last_spray_time'' \<mapsto> PStr ''t1'', ''spray_duration'' \<mapsto> PNum 5)) \<and>
   fst (update_sensors ''t2'' (initial_sensor_data ''t0'') (PDict [(''soil_moisture'', PNone)])) =
     SensorsOk (snd (update_sensors ''t2'' (initial_sensor_data ''t0'')
       (PDict [(''soil_moisture'', PNone)]))) \<and>
   snd (update_sensors ''t2'' (initial_sensor_data ''t0'') (PDict [(''soil_moisture'', PNone)]))
       ''soil_moisture'' = Some PNone \<and>
   control_spray ''t3''
       (snd (update_sensors ''t2'' (initial_sensor_data ''t0'') (PDict [(''soil_moisture'', PNone)])))
       (snd (control_spray ''t1'' (initial_sensor_data ''t0'') initial_spray_status
         (PDict [(''command'', PStr ''START'')])))
       (PDict [(''command'', PStr ''STOP'')]) =
     (SprayFailed TypeError,
      snd (control_spray ''t1'' (initial_sensor_data ''t0'') initial_spray_status
        (PDict [(''command'', PStr ''START'')]))) \<and>
   snd (control_spray ''t1'' (initial_sensor_data ''t0'') initial_spray_status
        (PDict [(''command'', PStr ''START'')])) ''is_spraying'' = Some (PBool True)"
proof -
  have start: "control_spray ''t1'' (initial_sensor_data ''t0'') initial_spray_status
       (PDict [(''command'', PStr ''START'')]) =
     (SprayStarted (PNum 5) (PNum 55),
      initial_spray_status
        (''is_spraying'' \<mapsto> PBool True, ''last_command'' \<mapsto> PStr ''START'',
         ''last_spray_time'' \<mapsto> PStr ''t1'', ''spray_duration'' \<mapsto> PNum 5))"
    by (simp add: control_spray_def request_command_def request_duration_def
        request_soil_moisture_def store_get_def initial_sensor_data_def py_between_def
        upper_char_def)
  have push: "update_sensors ''t2'' (initial_sensor_data ''t0'') (PDict [(''soil_moisture'', PNone)]) =
     (SensorsOk ((initial_sensor_data ''t0'')
        (''temperature'' \<mapsto> PNum 25, ''humidity'' \<mapsto> PNum 60, ''soil_moisture'' \<mapsto> PNone,
         ''timestamp'' \<mapsto> PStr ''t2'')),
      (initial_sensor_data ''t0'')
        (''temperature'' \<mapsto> PNum 25, ''humidity'' \<mapsto> PNum 60, ''soil_moisture'' \<mapsto> PNone,
         ''timestamp'' \<mapsto> PStr ''t2''))"
    by (simp add: update_sensors_def sensor_field_def store_item_def initial_sensor_data_def
        Let_def)
  have stop: "\<And>status. control_spray ''t3''
       ((initial_sensor_data ''t0'')
        (''temperature'' \<mapsto> PNum 25, ''humidity'' \<mapsto> PNum 60, ''soil_moisture'' \<mapsto> PNone,
         ''timestamp'' \<mapsto> PStr ''t2''))
       status (PDict [(''command'', PStr ''STOP'')]) = (SprayFailed TypeError, status)"
    by (simp add: control_spray_def request_command_def request_duration_def
        request_soil_moisture_def store_get_def py_between_def upper_char_def)
  show ?thesis
    by (simp add: start push stop)
qed

section \<open>Properties of the sensor store\<close>

lemma sensor_field_dict:
  "latest k = Some old \<Longrightarrow>
     sensor_field (PDict kvs) latest k = Inr (case map_of kvs k of Some v \<Rightarrow> v | None \<Rightarrow> old)"
  by (simp add: sensor_field_def store_item_def)

text \<open>
  The store has its three readings from the start, and \<^verbatim>\<open>update_sensors\<close> keeps them,
  whatever the request body.
\<close>

lemma initial_sensor_data_fields:
  "initial_sensor_data now ''temperature'' = Some (PNum 25) \<and>
   initial_sensor_data now ''humidity'' = Some (PNum 60) \<and>
   initial_sensor_data now ''soil_moisture'' = Some (PNum 55)"
  by (simp add: initial_sensor_data_def)

lemma update_sensors_keeps_fields:
  assumes "latest ''temperature'' \<noteq> None"
    and "latest ''humidity'' \<noteq> None"
    and "latest ''soil_moisture'' \<noteq> None"
  shows "snd (update_sensors now latest data) ''temperature'' \<noteq> None \<and>
         snd (update_sensors now latest data) ''humidity'' \<noteq> None \<and>
         snd (update_sensors now latest data) ''soil_moisture'' \<noteq> None"
  using assms
  by (auto simp add: update_sensors_def Let_def split: sum.splits)

text \<open>
  C8: a partial update (a JSON object \<open>kvs\<close>) of a store holding the three readings
  succeeds; each of \<^verbatim>\<open>temperature\<close>, \<^verbatim>\<open>humidity\<close> and \<^verbatim>\<open>soil_moisture\<close> has the
  supplied value when the update supplies one and its previous value otherwise; the
  timestamp is the time of the update; no other key changes; and \<^verbatim>\<open>get_sensors\<close>
  returns the updated store.
\<close>

theorem partial_sensor_update:
  assumes "latest ''temperature'' = Some t"
    and "latest ''humidity'' = Some h"
    and "latest ''soil_moisture'' = Some m"
  shows "\<exists>latest'. update_sensors now latest (PDict kvs) = (SensorsOk latest', latest') \<and>
         get_sensors latest' = SensorsOk latest' \<and>
         (\<forall>k \<in> {''temperature'', ''humidity'', ''soil_moisture''}.
            latest' k = (case map_of kvs k of Some v \<Rightarrow> Some v | None \<Rightarrow> latest k)) \<and>
         latest' ''timestamp'' = Some (PStr now) \<and>
         (\<forall>k. k \<notin> {''temperature'', ''humidity'', ''soil_moisture'', ''timestamp''}
            \<longrightarrow> latest' k = latest k)"
  using assms
  by (auto simp add: update_sensors_def sensor_field_dict get_sensors_def Let_def split: option.splits)

text \<open>Recording \<^verbatim>\<open>{soil_moisture: 55}\<close> and reading back: 55, the rest as before.\<close>

theorem partial_sensor_update_witness:
  "[''temperature'' \<mapsto> PNum 31, ''humidity'' \<mapsto> PNum 48, ''soil_moisture'' \<mapsto> PNum 30,
    ''timestamp'' \<mapsto> PStr ''t0''] ''temperature'' = Some (PNum 31) \<and>
   [''temperature'' \<mapsto> PNum 31, ''humidity'' \<mapsto> PNum 48, ''soil_moisture'' \<mapsto> PNum 30,
    ''timestamp'' \<mapsto> PStr ''t0''] ''humidity'' = Some (PNum 48) \<and>
   [''temperature'' \<mapsto> PNum 31, ''humidity'' \<mapsto> PNum 48, ''soil_moisture'' \<mapsto> PNum 30,
    ''timestamp'' \<mapsto> PStr ''t0''] ''soil_moisture'' = Some (PNum 30) \<and>
   (\<exists>latest'. update_sensors ''t1''
        [''temperature'' \<mapsto> PNum 31, ''humidity'' \<mapsto> PNum 48, ''soil_moisture'' \<mapsto> PNum 30,
         ''timestamp'' \<mapsto> PStr ''t0'']
        (PDict [(''soil_moisture'', PNum 55)]) = (SensorsOk latest', latest') \<and>
      get_sensors latest' = SensorsOk latest' \<and>
      latest' ''soil_moisture'' = Some (PNum 55) \<and>
      latest' ''temperature'' = Some (PNum 31) \<and>
      latest' ''humidity'' = Some (PNum 48) \<and>
      latest' ''timestamp'' = Some (PStr ''t1''))"
proof -
  have t: "[''temperature'' \<mapsto> PNum 31, ''humidity'' \<mapsto> PNum 48, ''soil_moisture'' \<mapsto> PNum 30,
    ''timestamp'' \<mapsto> PStr ''t0''] ''temperature'' = Some (PNum 31)" by simp
  have h: "[''temperature'' \<mapsto> PNum 31, ''humidity'' \<mapsto> PNum 48, ''soil_moisture'' \<mapsto> PNum 30,
    ''timestamp'' \<mapsto> PStr ''t0''] ''humidity'' = Some (PNum 48)" by simp
  have m: "[''temperature'' \<mapsto> PNum 31, ''humidity'' \<mapsto> PNum 48, ''soil_moisture'' \<mapsto> PNum 30,
    ''timestamp'' \<mapsto> PStr ''t0''] ''soil_moisture'' = Some (PNum 30)" by simp
  from partial_sensor_update [OF t h m, where now = "''t1''" and kvs = "[(''soil_moisture'', PNum 55)]"]
  obtain latest' where
    "update_sensors ''t1''
        [''temperature'' \<mapsto> PNum 31, ''humidity'' \<mapsto> PNum 48, ''soil_moisture'' \<mapsto> PNum 30,
         ''timestamp'' \<mapsto> PStr ''t0'']
        (PDict [(''soil_moisture'', PNum 55)]) = (SensorsOk latest', latest')"
    "get_sensors latest' = SensorsOk latest'"
    "\<forall>k \<in> {''temperature'', ''humidity'', ''soil_moisture''}.
        latest' k = (case map_of [(''soil_moisture'', PNum 55)] k of Some v \<Rightarrow> Some v
          | None \<Rightarrow> [''temperature'' \<mapsto> PNum 31, ''humidity'' \<mapsto> PNum 48, ''soil_moisture'' \<mapsto> PNum 30,
         ''timestamp'' \<mapsto> PStr ''t0''] k)"
    "latest' ''timestamp'' = Some (PStr ''t1'')"
    by blast
  then show ?thesis by simp
qed

section \<open>Properties of the analysis response\<close>

text \<open>
  Above the threshold the flag of the response is the Python \<^verbatim>\<open>bool\<close> of the moisture
  check: for a soil moisture that resolves to the number \<open>m\<close> the response is built,
  with \<^verbatim>\<open>spray_recommended\<close> and \<^verbatim>\<open>spray_allowed\<close> both true exactly when
  \<open>40 \<le> m \<le> 70\<close>.
\<close>

lemma analyze_flags_above_threshold:
  assumes "analyze_soil_moisture py_float form sensors = Inr v"
    and "num_of v = Inr m"
    and "15 < x"
  shows "\<exists>r. analyze_image py_float form sensors k x = AnalyzeOk r \<and>
           resp_spray_recommended r = (40 \<le> m \<and> m \<le> 70) \<and>
           resp_spray_allowed r = (40 \<le> m \<and> m \<le> 70)"
  using assms
  by (simp add: analyze_image_def get_recommendation_def healthy_entry Let_def py_between_def
      py_and_def)

text \<open>
  Up to the threshold the flag is numpy's \<^verbatim>\<open>False\<close>, which \<^verbatim>\<open>jsonify\<close> refuses: the
  handler answers 500 whatever the moisture.
\<close>

lemma analyze_fails_up_to_threshold:
  assumes "analyze_soil_moisture py_float form sensors = Inr v"
    and "num_of v = Inr m"
    and "x \<le> 15"
  shows "analyze_image py_float form sensors k x = AnalyzeFailed TypeError"
  using assms
  by (simp add: analyze_image_def get_recommendation_def healthy_entry Let_def py_between_def
      py_and_def)

text \<open>
  C10: the response of \<^verbatim>\<open>analyze_image\<close> is to carry \<^verbatim>\<open>spray_recommended\<close>, true exactly
  when the infection level is above 15 and the soil moisture is within \<open>[40, 70]\<close>, and
  \<^verbatim>\<open>spray_allowed\<close>, true exactly when the soil moisture is within \<open>[40, 70]\<close>. At
  infection level 10 and soil moisture 55, from the stored reading or from the form,
  the handler fails with \<^verbatim>\<open>TypeError\<close> instead of answering with
  \<^verbatim>\<open>spray_recommended\<close> false and \<^verbatim>\<open>spray_allowed\<close> true.
\<close>

theorem analyze_fails_at_low_infection:
  "analyze_image (\<lambda>s. Inl ValueError) Map.empty (initial_sensor_data ''t0'') ''rice_blast'' 10
     = AnalyzeFailed TypeError \<and>
   analyze_image (\<lambda>s. Inr 55) [''soil_moisture'' \<mapsto> ''55''] (initial_sensor_data ''t0'')
       ''rice_blast'' 10
     = AnalyzeFailed TypeError"
  by (simp add: analyze_image_def analyze_soil_moisture_def initial_sensor_data_def store_get_def
      get_recommendation_def healthy_entry Let_def py_between_def py_and_def)

text \<open>The same request at infection level 45 is answered, with both flags true.\<close>

lemma analyze_answers_at_high_infection:
  "\<exists>r. analyze_image (\<lambda>s. Inl ValueError) Map.empty (initial_sensor_data ''t0'') ''rice_blast'' 45
          = AnalyzeOk r \<and> resp_spray_recommended r \<and> resp_spray_allowed r"
  by (simp add: analyze_image_def analyze_soil_moisture_def initial_sensor_data_def store_get_def
      get_recommendation_def healthy_entry Let_def py_between_def py_and_def)

end
